theory Spec2Isabelle
  imports Main
begin

section \<open>Cache file backends of imagekit (imagekit/cachefiles/backends.py)\<close>

subsection \<open>Cache file states\<close>

text \<open>
  The class \<^verbatim>\<open>CacheFileState\<close> holds three string constants. The cache stores
  and returns these strings, so the model keeps them as strings.
\<close>

definition EXISTS :: string where
  "EXISTS = ''exists''"

definition GENERATING :: string where
  "GENERATING = ''generating''"

definition DOES_NOT_EXIST :: string where
  "DOES_NOT_EXIST = ''does_not_exist''"

subsection \<open>Exceptions\<close>

text \<open>
  \<^verbatim>\<open>ImproperlyConfigured\<close> carries its message. \<^verbatim>\<open>AttributeError\<close> is what
  Python raises when \<^verbatim>\<open>.delay\<close> is looked up on the plain function
  \<^verbatim>\<open>_generate_file\<close> (celery missing). \<^verbatim>\<open>Raised\<close> stands for
  whatever exception the file's own \<^verbatim>\<open>_generate()\<close> raises.
\<close>

datatype error =
    ImproperlyConfigured string
  | NotImplementedError
  | AttributeError
  | Raised string

subsection \<open>Environment, files, backends and the world\<close>

text \<open>
  The environment holds what the module reads from outside: the setting
  \<^verbatim>\<open>IMAGEKIT_CACHE_PREFIX\<close>, the helper \<^verbatim>\<open>sanitize_cache_key\<close> of
  \<^verbatim>\<open>imagekit.utils\<close> (taken as a parameter), and whether
  \<^verbatim>\<open>import celery\<close> succeeds.
\<close>

record env =
  IMAGEKIT_CACHE_PREFIX :: string
  sanitize_cache_key :: "string \<Rightarrow> string"
  celery_installed :: bool

text \<open>
  A file object as the backend sees it: \<^verbatim>\<open>file.name\<close>; the truth value of
  \<^verbatim>\<open>getattr(file, '_file', None)\<close>; and the routine \<^verbatim>\<open>file._generate()\<close>,
  an external collaborator that acts on the storage and may raise.
\<close>

record cachefile =
  name :: string
  staged :: bool
  render :: "string set \<Rightarrow> string set \<times> error option"

text \<open>
  A backend instance. \<^verbatim>\<open>existence_check_timeout\<close> is the value attribute
  lookup yields: the class attribute 5 unless a subclass or instance overrides it.
\<close>

record backend =
  existence_check_timeout :: int

definition CachedFileBackend_existence_check_timeout :: int where
  "CachedFileBackend_existence_check_timeout = 5"

text \<open>
  One entry of the cache: the value and the timeout argument of the
  \<^verbatim>\<open>cache.set\<close> call that wrote it (\<open>None\<close>: no timeout argument, the
  cache's default applies).
\<close>

record cache_entry =
  val :: string
  timeout :: "int option"

record task =
  task_backend :: backend
  task_file :: cachefile
  task_force :: bool

text \<open>
  The world the backend acts on: the shared cache behind \<^verbatim>\<open>self.cache\<close>,
  the names present in the storage, the celery queue, and two logs that record each
  call of \<^verbatim>\<open>_exists\<close> and of \<^verbatim>\<open>file._generate()\<close> by file name.
\<close>

record world =
  cache :: "string \<rightharpoonup> cache_entry"
  storage :: "string set"
  queue :: "task list"
  probes :: "string list"
  rendered :: "string list"

definition cache_get :: "world \<Rightarrow> string \<Rightarrow> string option" where
  "cache_get w key = map_option val (cache w key)"

definition cache_set :: "string \<Rightarrow> string \<Rightarrow> int option \<Rightarrow> world \<Rightarrow> world" where
  "cache_set key state t w = w\<lparr>cache := (cache w)(key \<mapsto> \<lparr>val = state, timeout = t\<rparr>)\<rparr>"

subsection \<open>CachedFileBackend\<close>

definition get_key :: "env \<Rightarrow> cachefile \<Rightarrow> string" where
  "get_key e f = sanitize_cache_key e (IMAGEKIT_CACHE_PREFIX e @ name f @ ''-state'')"

definition set_state :: "env \<Rightarrow> backend \<Rightarrow> cachefile \<Rightarrow> string \<Rightarrow> world \<Rightarrow> world" where
  "set_state e b f state w =
     (let key = get_key e f in
      if state = DOES_NOT_EXIST
      then cache_set key state (Some (existence_check_timeout b)) w
      else cache_set key state None w)"

text \<open>\<^verbatim>\<open>Simple._exists\<close>, the probe that \<^verbatim>\<open>get_state\<close> calls on a miss.\<close>

definition Simple_exists :: "cachefile \<Rightarrow> world \<Rightarrow> bool \<times> world" where
  "Simple_exists f w =
     (staged f \<or> name f \<in> storage w, w\<lparr>probes := probes w @ [name f]\<rparr>)"

text \<open>The result \<open>None\<close> is Python's \<^verbatim>\<open>None\<close>.\<close>

definition get_state :: "env \<Rightarrow> backend \<Rightarrow> cachefile \<Rightarrow> bool \<Rightarrow> world \<Rightarrow> string option \<times> world" where
  "get_state e b f check_if_unknown w =
     (let key = get_key e f;
          state = cache_get w key
      in if state = None \<and> check_if_unknown
         then (let (ex, w1) = Simple_exists f w;
                   state' = (if ex then EXISTS else DOES_NOT_EXIST)
               in (Some state', set_state e b f state' w1))
         else (state, w))"

definition exists :: "env \<Rightarrow> backend \<Rightarrow> cachefile \<Rightarrow> world \<Rightarrow> bool \<times> world" where
  "exists e b f w = (let (state, w1) = get_state e b f True w in (state = Some EXISTS, w1))"

text \<open>The call \<^verbatim>\<open>file._generate()\<close>: logged, then run on the storage.\<close>

definition file_generate :: "cachefile \<Rightarrow> world \<Rightarrow> world \<times> error option" where
  "file_generate f w =
     (let (s, r) = render f (storage w)
      in (w\<lparr>storage := s, rendered := rendered w @ [name f]\<rparr>, r))"

text \<open>
  Python's \<^verbatim>\<open>force or ...\<close> does not call \<^verbatim>\<open>get_state\<close> when
  \<^verbatim>\<open>force\<close> is true. The second component of the result is the exception that
  leaves the call, if any.
\<close>

definition generate_now :: "env \<Rightarrow> backend \<Rightarrow> cachefile \<Rightarrow> bool \<Rightarrow> world \<Rightarrow> world \<times> error option" where
  "generate_now e b f force w =
     (let (go, w0) =
            (if force then (True, w)
             else (let (state, w') = get_state e b f True w
                   in (state \<noteq> Some GENERATING \<and> state \<noteq> Some EXISTS, w')))
      in if go
         then (let w1 = set_state e b f GENERATING w0;
                   (w2, r) = file_generate f w1
               in case r of
                    Some x \<Rightarrow> (w2, Some x)
                  | None \<Rightarrow> (set_state e b f EXISTS w2, None))
         else (w0, None))"

definition CachedFileBackend_generate :: "env \<Rightarrow> backend \<Rightarrow> cachefile \<Rightarrow> bool \<Rightarrow> world \<Rightarrow> world \<times> error option" where
  "CachedFileBackend_generate e b f force w = (w, Some NotImplementedError)"

subsection \<open>Simple and Async\<close>

definition Simple_init :: "backend" where
  "Simple_init = \<lparr>existence_check_timeout = CachedFileBackend_existence_check_timeout\<rparr>"

definition Simple_generate :: "env \<Rightarrow> backend \<Rightarrow> cachefile \<Rightarrow> bool \<Rightarrow> world \<Rightarrow> world \<times> error option" where
  "Simple_generate e b f force w = generate_now e b f force w"

text \<open>The module-level function \<^verbatim>\<open>_generate_file\<close>, the body of the celery task.\<close>

definition generate_file_task :: "env \<Rightarrow> backend \<Rightarrow> cachefile \<Rightarrow> bool \<Rightarrow> world \<Rightarrow> world \<times> error option" where
  "generate_file_task e b f force w = generate_now e b f force w"

definition run_task :: "env \<Rightarrow> task \<Rightarrow> world \<Rightarrow> world \<times> error option" where
  "run_task e t w = generate_file_task e (task_backend t) (task_file t) (task_force t) w"

definition Async_init :: "env \<Rightarrow> error + backend" where
  "Async_init e =
     (if celery_installed e
      then Inr \<lparr>existence_check_timeout = CachedFileBackend_existence_check_timeout\<rparr>
      else Inl (ImproperlyConfigured
        ''You must install celery to use imagekit.cachefiles.backend.Async.''))"

text \<open>
  \<^verbatim>\<open>_generate_file.delay\<close> exists only when the import of celery at module level
  succeeded; otherwise the attribute lookup raises.
\<close>

definition Async_generate :: "env \<Rightarrow> backend \<Rightarrow> cachefile \<Rightarrow> bool \<Rightarrow> world \<Rightarrow> world \<times> error option" where
  "Async_generate e b f force w =
     (let (state, w1) = get_state e b f False w
      in if state \<noteq> Some GENERATING \<and> state \<noteq> Some EXISTS
         then (if celery_installed e
               then (w1\<lparr>queue := queue w1 @
                       [\<lparr>task_backend = b, task_file = f, task_force = force\<rparr>]\<rparr>, None)
               else (w1, Some AttributeError))
         else (w1, None))"

subsection \<open>Pickling: the instance dictionary on a heap\<close>

text \<open>
  \<^verbatim>\<open>__getstate__\<close> copies \<^verbatim>\<open>self.__dict__\<close> and pops a key from the copy.
  Dictionaries are objects on a heap (a list, the address is the index);
  \<^verbatim>\<open>copy\<close> allocates a new dictionary with the same items, and
  \<^verbatim>\<open>pop(key, None)\<close> removes the key in place when it is there.
\<close>

type_synonym 'v heap = "(string \<rightharpoonup> 'v) list"

definition copy :: "nat \<Rightarrow> 'v heap \<Rightarrow> nat \<times> 'v heap" where
  "copy a h = (length h, h @ [h ! a])"

definition pop :: "nat \<Rightarrow> string \<Rightarrow> 'v heap \<Rightarrow> 'v heap" where
  "pop a k h = h[a := (h ! a)(k := None)]"

definition getstate :: "nat \<Rightarrow> 'v heap \<Rightarrow> nat \<times> 'v heap" where
  "getstate self h =
     (let (state, h1) = copy self h;
          h2 = pop state ''_cache'' h1
      in (state, h2))"

subsection \<open>generate\_now as the specification words it\<close>



subsection \<open>The defined states\<close>

text \<open>The three values of \<^verbatim>\<open>CacheFileState\<close>, and a cache that holds no other value.\<close>

definition CacheFileState :: "string set" where
  "CacheFileState = {EXISTS, GENERATING, DOES_NOT_EXIST}"

definition valid_cache :: "world \<Rightarrow> bool" where
  "valid_cache w = (\<forall>k s. cache_get w k = Some s \<longrightarrow> s \<in> CacheFileState)"

subsection \<open>Concrete inputs\<close>

definition ex_env :: env where
  "ex_env = \<lparr>IMAGEKIT_CACHE_PREFIX = ''ik:'', sanitize_cache_key = (\<lambda>s. s), celery_installed = True\<rparr>"

definition ex_file :: cachefile where
  "ex_file = \<lparr>name = ''a.jpg'', staged = False, render = (\<lambda>s. (insert ''a.jpg'' s, None))\<rparr>"

definition ex_world :: world where
  "ex_world = \<lparr>cache = Map.empty, storage = {}, queue = [], probes = [], rendered = []\<rparr>"

definition ex_generating :: world where
  "ex_generating = ex_world\<lparr>cache := [''ik:a.jpg-state'' \<mapsto> \<lparr>val = GENERATING, timeout = None\<rparr>]\<rparr>"

definition ex_failing :: cachefile where
  "ex_failing = \<lparr>name = ''b.jpg'', staged = False, render = (\<lambda>s. (s, Some (Raised ''IOError'')))\<rparr>"

definition ex_heap :: "nat heap" where
  "ex_heap = [[''_cache'' \<mapsto> 7, ''existence_check_timeout'' \<mapsto> 30]]"

section \<open>Properties\<close>

subsection \<open>Frame lemmas\<close>

lemma cache_get_cache_set:
  "cache_get (cache_set key state t w) k = (if k = key then Some state else cache_get w k)"
  by (simp add: cache_get_def cache_set_def)

lemma set_state_frame:
  "storage (set_state e b f s w) = storage w"
  "queue (set_state e b f s w) = queue w"
  "probes (set_state e b f s w) = probes w"
  "rendered (set_state e b f s w) = rendered w"
  by (simp_all add: set_state_def cache_set_def Let_def)

lemma cache_get_set_state:
  "cache_get (set_state e b f s w) k = (if k = get_key e f then Some s else cache_get w k)"
  by (simp add: set_state_def Let_def cache_get_cache_set)

subsection \<open>set\_state\<close>

text \<open>
  C4. \<^verbatim>\<open>set_state\<close> writes the state under the file's key. Writing
  \<^verbatim>\<open>DOES_NOT_EXIST\<close> passes the backend's \<^verbatim>\<open>existence_check_timeout\<close> as
  the timeout; writing \<^verbatim>\<open>EXISTS\<close> or \<^verbatim>\<open>GENERATING\<close> passes no timeout
  argument, so the cache's default applies. The class default of
  \<^verbatim>\<open>existence_check_timeout\<close> is 5, and nothing but the cache is touched.
\<close>

theorem set_state_ttl_policy:
  "cache (set_state e b f DOES_NOT_EXIST w) (get_key e f) =
     Some \<lparr>val = DOES_NOT_EXIST, timeout = Some (existence_check_timeout b)\<rparr>
   \<and> cache (set_state e b f EXISTS w) (get_key e f) =
     Some \<lparr>val = EXISTS, timeout = None\<rparr>
   \<and> cache (set_state e b f GENERATING w) (get_key e f) =
     Some \<lparr>val = GENERATING, timeout = None\<rparr>
   \<and> existence_check_timeout Simple_init = 5"
  by (simp add: set_state_def cache_set_def Let_def EXISTS_def GENERATING_def
      DOES_NOT_EXIST_def Simple_init_def CachedFileBackend_existence_check_timeout_def)

subsection \<open>Reading the state\<close>

lemma states_distinct:
  "EXISTS \<noteq> GENERATING" "EXISTS \<noteq> DOES_NOT_EXIST" "GENERATING \<noteq> DOES_NOT_EXIST"
  "GENERATING \<noteq> EXISTS" "DOES_NOT_EXIST \<noteq> EXISTS" "DOES_NOT_EXIST \<noteq> GENERATING"
  by (simp_all add: EXISTS_def GENERATING_def DOES_NOT_EXIST_def)

lemma get_state_hit:
  "cache_get w (get_key e f) = Some s \<Longrightarrow> get_state e b f c w = (Some s, w)"
  by (simp add: get_state_def Let_def)

lemma get_state_miss_noprobe:
  "cache_get w (get_key e f) = None \<Longrightarrow> get_state e b f False w = (None, w)"
  by (simp add: get_state_def Let_def)

lemma get_state_miss_probe:
  "cache_get w (get_key e f) = None \<Longrightarrow>
   get_state e b f True w =
     (let (ex, w1) = Simple_exists f w; s = (if ex then EXISTS else DOES_NOT_EXIST)
      in (Some s, set_state e b f s w1))"
  by (simp add: get_state_def Let_def)

lemma get_state_noprobe: "get_state e b f False w = (cache_get w (get_key e f), w)"
  by (simp add: get_state_def Let_def)

lemma get_state_frame:
  "storage (snd (get_state e b f c w)) = storage w"
  "queue (snd (get_state e b f c w)) = queue w"
  "rendered (snd (get_state e b f c w)) = rendered w"
  by (simp_all add: get_state_def Let_def Simple_exists_def set_state_frame)

lemma get_state_cached:
  "fst (get_state e b f True w) = Some s \<Longrightarrow>
   cache_get (snd (get_state e b f True w)) (get_key e f) = Some s"
  by (cases "cache_get w (get_key e f)")
     (auto simp: get_state_def Let_def Simple_exists_def cache_get_set_state)

subsection \<open>The three cases of get\_state\<close>

text \<open>
  C5. \<^verbatim>\<open>get_state\<close> returns the cached state when the cache holds one under
  the file's key, and leaves the world as it is. On a miss with
  \<^verbatim>\<open>check_if_unknown\<close> true it runs the probe, turns the answer into
  \<^verbatim>\<open>EXISTS\<close> or \<^verbatim>\<open>DOES_NOT_EXIST\<close>, stores that through
  \<^verbatim>\<open>set_state\<close> and returns it. On a miss with \<^verbatim>\<open>check_if_unknown\<close>
  false it returns \<^verbatim>\<open>None\<close>, which is none of the three states, and the world
  (cache and probe log included) is unchanged.
\<close>

theorem get_state_cases:
  "(cache_get w (get_key e f) = Some s \<longrightarrow> get_state e b f c w = (Some s, w))
   \<and> (cache_get w (get_key e f) = None \<longrightarrow>
        fst (get_state e b f True w) =
          Some (if fst (Simple_exists f w) then EXISTS else DOES_NOT_EXIST)
        \<and> snd (get_state e b f True w) =
          set_state e b f (if fst (Simple_exists f w) then EXISTS else DOES_NOT_EXIST)
            (snd (Simple_exists f w))
        \<and> cache_get (snd (get_state e b f True w)) (get_key e f) =
          fst (get_state e b f True w)
        \<and> get_state e b f False w = (None, w))
   \<and> None \<notin> Some ` CacheFileState"
  by (auto simp: get_state_hit get_state_miss_noprobe get_state_miss_probe Let_def
      cache_get_set_state split: prod.splits)

theorem get_state_cases_witness:
  "get_state ex_env Simple_init ex_file True
     (ex_world\<lparr>cache := [''ik:a.jpg-state'' \<mapsto> \<lparr>val = GENERATING, timeout = None\<rparr>]\<rparr>)
     = (Some GENERATING, ex_world\<lparr>cache := [''ik:a.jpg-state'' \<mapsto> \<lparr>val = GENERATING, timeout = None\<rparr>]\<rparr>)
   \<and> fst (get_state ex_env Simple_init ex_file True ex_world) = Some DOES_NOT_EXIST
   \<and> get_state ex_env Simple_init ex_file False ex_world = (None, ex_world)"
  using get_state_cases [of "ex_world\<lparr>cache := [''ik:a.jpg-state'' \<mapsto> \<lparr>val = GENERATING, timeout = None\<rparr>]\<rparr>"
      ex_env ex_file GENERATING Simple_init True]
    get_state_cases [of ex_world ex_env ex_file GENERATING Simple_init True]
  by (simp add: cache_get_def get_key_def ex_env_def ex_file_def ex_world_def Simple_exists_def)

subsection \<open>Constructing Async\<close>

text \<open>
  C7. When celery cannot be imported, constructing \<^verbatim>\<open>Async\<close> raises
  \<^verbatim>\<open>ImproperlyConfigured\<close> and yields no backend at all.
\<close>

theorem Async_init_fails_fast:
  "\<not> celery_installed e \<Longrightarrow>
   Async_init e = Inl (ImproperlyConfigured
      ''You must install celery to use imagekit.cachefiles.backend.Async.'')
   \<and> (\<forall>b. Async_init e \<noteq> Inr b)"
  by (simp add: Async_init_def)

theorem Async_init_fails_fast_witness:
  "\<not> celery_installed (ex_env\<lparr>celery_installed := False\<rparr>)
   \<and> Async_init (ex_env\<lparr>celery_installed := False\<rparr>) = Inl (ImproperlyConfigured
      ''You must install celery to use imagekit.cachefiles.backend.Async.'')"
  using Async_init_fails_fast [of "ex_env\<lparr>celery_installed := False\<rparr>"]
  by (simp add: ex_env_def)

subsection \<open>exists\<close>

text \<open>
  C8. \<^verbatim>\<open>exists\<close> is true exactly when \<^verbatim>\<open>get_state\<close> with probing
  returns \<^verbatim>\<open>EXISTS\<close>, and has the effects of that call. The probe
  \<^verbatim>\<open>_exists\<close> answers true exactly when the file object carries a staged
  \<^verbatim>\<open>_file\<close> or the storage has the file's name; on a cache miss that answer is
  the result of \<^verbatim>\<open>exists\<close>.
\<close>

theorem exists_iff_state_EXISTS:
  "fst (exists e b f w) = (fst (get_state e b f True w) = Some EXISTS)
   \<and> snd (exists e b f w) = snd (get_state e b f True w)
   \<and> fst (Simple_exists f w) = (staged f \<or> name f \<in> storage w)
   \<and> (cache_get w (get_key e f) = None \<longrightarrow>
        fst (exists e b f w) = (staged f \<or> name f \<in> storage w))"
  by (auto simp: exists_def get_state_miss_probe Simple_exists_def Let_def states_distinct
      split: prod.splits)

theorem exists_iff_state_EXISTS_witness:
  "cache_get (ex_world\<lparr>storage := {''a.jpg''}\<rparr>) (get_key ex_env ex_file) = None
   \<and> fst (exists ex_env Simple_init ex_file (ex_world\<lparr>storage := {''a.jpg''}\<rparr>))
   \<and> \<not> fst (exists ex_env Simple_init ex_file ex_world)"
proof -
  have h1: "cache_get (ex_world\<lparr>storage := {''a.jpg''}\<rparr>) (get_key ex_env ex_file) = None"
    by (simp add: cache_get_def ex_world_def)
  have h2: "cache_get ex_world (get_key ex_env ex_file) = None"
    by (simp add: cache_get_def ex_world_def)
  from h1 exists_iff_state_EXISTS [of ex_env Simple_init ex_file "ex_world\<lparr>storage := {''a.jpg''}\<rparr>"]
  have a: "fst (exists ex_env Simple_init ex_file (ex_world\<lparr>storage := {''a.jpg''}\<rparr>)) =
      (staged ex_file \<or> name ex_file \<in> storage (ex_world\<lparr>storage := {''a.jpg''}\<rparr>))"
    by blast
  from h2 exists_iff_state_EXISTS [of ex_env Simple_init ex_file ex_world]
  have b: "fst (exists ex_env Simple_init ex_file ex_world) =
      (staged ex_file \<or> name ex_file \<in> storage ex_world)"
    by blast
  show ?thesis using h1 a b by (simp add: ex_world_def ex_file_def)
qed

subsection \<open>Rendering and the guard of generate\_now\<close>

lemma file_generate_frame:
  "cache (fst (file_generate f w)) = cache w"
  "queue (fst (file_generate f w)) = queue w"
  "probes (fst (file_generate f w)) = probes w"
  "rendered (fst (file_generate f w)) = rendered w @ [name f]"
  "storage (fst (file_generate f w)) = fst (render f (storage w))"
  "snd (file_generate f w) = snd (render f (storage w))"
  by (simp_all add: file_generate_def split: prod.splits)

lemma cache_get_file_generate:
  "cache_get (fst (file_generate f w)) k = cache_get w k"
  by (simp add: cache_get_def file_generate_frame)

lemma generate_now_forced:
  "generate_now e b f True w =
     (case file_generate f (set_state e b f GENERATING w) of
        (w2, Some x) \<Rightarrow> (w2, Some x)
      | (w2, None) \<Rightarrow> (set_state e b f EXISTS w2, None))"
  by (simp add: generate_now_def Let_def split: prod.splits option.splits)

lemma generate_now_skip:
  "fst (get_state e b f True w) = Some GENERATING \<or> fst (get_state e b f True w) = Some EXISTS \<Longrightarrow>
   generate_now e b f False w = (snd (get_state e b f True w), None)"
  by (auto simp: generate_now_def Let_def split: prod.splits)

lemma generate_now_go:
  "fst (get_state e b f True w) \<noteq> Some GENERATING \<Longrightarrow> fst (get_state e b f True w) \<noteq> Some EXISTS \<Longrightarrow>
   generate_now e b f False w = generate_now e b f True (snd (get_state e b f True w))"
  by (auto simp: generate_now_def Let_def split: prod.splits)

lemma ex_key: "get_key ex_env ex_file = ''ik:a.jpg-state''"
  by (simp add: get_key_def ex_env_def ex_file_def)

lemma ex_generating_state: "cache_get ex_generating (get_key ex_env ex_file) = Some GENERATING"
  by (simp add: ex_key ex_generating_def cache_get_def)

lemma ex_world_state: "cache_get ex_world k = None"
  by (simp add: ex_world_def cache_get_def)

lemma generate_now_forced_ok:
  "snd (render f (storage w)) = None \<Longrightarrow>
   generate_now e b f True w =
     (set_state e b f EXISTS (fst (file_generate f (set_state e b f GENERATING w))), None)"
  by (auto simp: generate_now_forced file_generate_def set_state_frame split: prod.splits)

lemma generate_now_forced_raise:
  "snd (render f (storage w)) = Some x \<Longrightarrow>
   generate_now e b f True w = (fst (file_generate f (set_state e b f GENERATING w)), Some x)"
  by (auto simp: generate_now_forced file_generate_def set_state_frame split: prod.splits)



subsection \<open>generate\_now\<close>




text \<open>
  C2, as stated, fails: when the cache already holds \<^verbatim>\<open>GENERATING\<close> for the
  file, the first non-forced call returns normally, the state is not
  \<^verbatim>\<open>EXISTS\<close> afterwards, and the two calls together render nothing.
\<close>

theorem generate_now_twice_counterexample:
  "snd (generate_now ex_env Simple_init ex_file False ex_generating) = None
   \<and> cache_get (fst (generate_now ex_env Simple_init ex_file False ex_generating))
        (get_key ex_env ex_file) \<noteq> Some EXISTS
   \<and> rendered ex_generating = []
   \<and> rendered (fst (generate_now ex_env Simple_init ex_file False
        (fst (generate_now ex_env Simple_init ex_file False ex_generating)))) = []"
proof -
  have "generate_now ex_env Simple_init ex_file False ex_generating = (ex_generating, None)"
    by (simp add: generate_now_skip get_state_hit ex_generating_state)
  moreover have "rendered ex_generating = []"
    by (simp add: ex_generating_def ex_world_def)
  ultimately show ?thesis
    by (simp add: ex_generating_state states_distinct)
qed

text \<open>
  C2, amended. When the state read by the first call is neither
  \<^verbatim>\<open>GENERATING\<close> nor \<^verbatim>\<open>EXISTS\<close> and the render does not raise, two
  non-forced calls in sequence render exactly once: the first call returns normally
  with the state \<^verbatim>\<open>EXISTS\<close>, and the second changes nothing. When the state
  read is \<^verbatim>\<open>GENERATING\<close> or \<^verbatim>\<open>EXISTS\<close>, neither call renders.
\<close>

theorem generate_now_twice:
  "(fst (get_state e b f True w) \<noteq> Some GENERATING
      \<and> fst (get_state e b f True w) \<noteq> Some EXISTS
      \<and> snd (render f (storage w)) = None \<longrightarrow>
        snd (generate_now e b f False w) = None
        \<and> cache_get (fst (generate_now e b f False w)) (get_key e f) = Some EXISTS
        \<and> generate_now e b f False (fst (generate_now e b f False w)) =
            (fst (generate_now e b f False w), None)
        \<and> rendered (fst (generate_now e b f False w)) = rendered w @ [name f])
   \<and> (fst (get_state e b f True w) = Some GENERATING
      \<or> fst (get_state e b f True w) = Some EXISTS \<longrightarrow>
        snd (generate_now e b f False w) = None
        \<and> generate_now e b f False (fst (generate_now e b f False w)) =
            (fst (generate_now e b f False w), None)
        \<and> rendered (fst (generate_now e b f False w)) = rendered w)"
proof (intro conjI impI)
  assume a: "fst (get_state e b f True w) \<noteq> Some GENERATING
      \<and> fst (get_state e b f True w) \<noteq> Some EXISTS
      \<and> snd (render f (storage w)) = None"
  let ?w0 = "snd (get_state e b f True w)"
  have r: "snd (render f (storage ?w0)) = None"
    using a by (simp add: get_state_frame)
  have g: "generate_now e b f False w =
      (set_state e b f EXISTS (fst (file_generate f (set_state e b f GENERATING ?w0))), None)"
    using a generate_now_go [of e b f w] generate_now_forced_ok [OF r] by simp
  show "snd (generate_now e b f False w) = None" by (simp add: g)
  show c: "cache_get (fst (generate_now e b f False w)) (get_key e f) = Some EXISTS"
    by (simp add: g cache_get_set_state)
  show "generate_now e b f False (fst (generate_now e b f False w)) =
            (fst (generate_now e b f False w), None)"
    using c by (simp add: generate_now_skip get_state_hit)
  show "rendered (fst (generate_now e b f False w)) = rendered w @ [name f]"
    by (simp add: g set_state_frame file_generate_frame get_state_frame)
next
  assume a: "fst (get_state e b f True w) = Some GENERATING
      \<or> fst (get_state e b f True w) = Some EXISTS"
  let ?w0 = "snd (get_state e b f True w)"
  have g: "generate_now e b f False w = (?w0, None)"
    using a by (rule generate_now_skip)
  obtain s where s: "fst (get_state e b f True w) = Some s" "s = GENERATING \<or> s = EXISTS"
    using a by auto
  have c: "cache_get ?w0 (get_key e f) = Some s"
    using s(1) by (rule get_state_cached)
  show "snd (generate_now e b f False w) = None" by (simp add: g)
  show "generate_now e b f False (fst (generate_now e b f False w)) =
            (fst (generate_now e b f False w), None)"
    using c s(2) by (auto simp: g generate_now_skip get_state_hit)
  show "rendered (fst (generate_now e b f False w)) = rendered w"
    by (simp add: g get_state_frame)
qed

theorem generate_now_twice_witness:
  "fst (get_state ex_env Simple_init ex_file True ex_world) = Some DOES_NOT_EXIST
   \<and> snd (render ex_file (storage ex_world)) = None
   \<and> rendered (fst (generate_now ex_env Simple_init ex_file False ex_world)) = [''a.jpg'']
   \<and> generate_now ex_env Simple_init ex_file False
        (fst (generate_now ex_env Simple_init ex_file False ex_world)) =
      (fst (generate_now ex_env Simple_init ex_file False ex_world), None)
   \<and> fst (get_state ex_env Simple_init ex_file True ex_generating) = Some GENERATING
   \<and> rendered (fst (generate_now ex_env Simple_init ex_file False ex_generating)) = []"
proof -
  have h1: "fst (get_state ex_env Simple_init ex_file True ex_world) = Some DOES_NOT_EXIST"
    by (simp add: get_state_miss_probe ex_world_state Simple_exists_def)
       (simp add: ex_world_def ex_file_def)
  have h2: "snd (render ex_file (storage ex_world)) = None"
    by (simp add: ex_file_def)
  have h3: "fst (get_state ex_env Simple_init ex_file True ex_generating) = Some GENERATING"
    by (simp add: get_state_hit ex_generating_state)
  have r0: "rendered ex_world = []" "name ex_file = ''a.jpg''" "rendered ex_generating = []"
    by (simp_all add: ex_world_def ex_file_def ex_generating_def)
  show ?thesis
    using h1 h2 h3 generate_now_twice [of ex_env Simple_init ex_file ex_world]
      generate_now_twice [of ex_env Simple_init ex_file ex_generating]
    by (simp add: states_distinct r0)
qed

text \<open>
  C3. When the render is reached (forced, or the state read is neither
  \<^verbatim>\<open>GENERATING\<close> nor \<^verbatim>\<open>EXISTS\<close>) and raises, that same exception
  leaves \<^verbatim>\<open>generate_now\<close>, the render has been invoked once, and the cached
  state is \<^verbatim>\<open>GENERATING\<close>: neither \<^verbatim>\<open>EXISTS\<close> nor
  \<^verbatim>\<open>DOES_NOT_EXIST\<close> has been written.
\<close>

theorem generate_now_render_raises:
  assumes "force \<or> (fst (get_state e b f True w) \<noteq> Some GENERATING
                    \<and> fst (get_state e b f True w) \<noteq> Some EXISTS)"
      and "snd (render f (storage w)) = Some x"
  shows "snd (generate_now e b f force w) = Some x
         \<and> cache_get (fst (generate_now e b f force w)) (get_key e f) = Some GENERATING
         \<and> cache_get (fst (generate_now e b f force w)) (get_key e f) \<noteq> Some EXISTS
         \<and> cache_get (fst (generate_now e b f force w)) (get_key e f) \<noteq> Some DOES_NOT_EXIST
         \<and> rendered (fst (generate_now e b f force w)) = rendered w @ [name f]"
proof -
  define w0 where "w0 = (if force then w else snd (get_state e b f True w))"
  have r: "snd (render f (storage w0)) = Some x"
    using assms(2) by (simp add: w0_def get_state_frame)
  have "generate_now e b f force w = generate_now e b f True w0"
    using assms(1) by (cases force) (simp_all add: w0_def generate_now_go)
  then have g: "generate_now e b f force w =
      (fst (file_generate f (set_state e b f GENERATING w0)), Some x)"
    using generate_now_forced_raise [OF r] by simp
  have "rendered w0 = rendered w"
    by (simp add: w0_def get_state_frame)
  then show ?thesis
    by (simp add: g cache_get_file_generate cache_get_set_state file_generate_frame
        set_state_frame states_distinct)
qed

theorem generate_now_render_raises_witness:
  "snd (render ex_failing (storage ex_world)) = Some (Raised ''IOError'')
   \<and> snd (generate_now ex_env Simple_init ex_failing False ex_world) = Some (Raised ''IOError'')
   \<and> cache_get (fst (generate_now ex_env Simple_init ex_failing False ex_world))
        ''ik:b.jpg-state'' = Some GENERATING
   \<and> rendered (fst (generate_now ex_env Simple_init ex_failing False ex_world)) = [''b.jpg'']"
proof -
  have h1: "fst (get_state ex_env Simple_init ex_failing True ex_world) \<noteq> Some GENERATING
      \<and> fst (get_state ex_env Simple_init ex_failing True ex_world) \<noteq> Some EXISTS"
    by (simp add: get_state_miss_probe ex_world_state Simple_exists_def states_distinct)
       (simp add: ex_world_def ex_failing_def)
  have h2: "snd (render ex_failing (storage ex_world)) = Some (Raised ''IOError'')"
    by (simp add: ex_failing_def)
  have k: "get_key ex_env ex_failing = ''ik:b.jpg-state''"
    by (simp add: get_key_def ex_env_def ex_failing_def)
  have r0: "rendered ex_world = []" "name ex_failing = ''b.jpg''"
    by (simp_all add: ex_world_def ex_failing_def)
  show ?thesis
    using h2 generate_now_render_raises [of False ex_env Simple_init ex_failing ex_world, OF _ h2] h1
    by (simp add: k r0)
qed

subsection \<open>Scheduling\<close>

lemma Async_init_installed: "Async_init e = Inr a \<Longrightarrow> celery_installed e"
  by (simp add: Async_init_def split: if_splits)

lemma Async_generate_installed:
  "celery_installed e \<Longrightarrow>
   Async_generate e b f force w =
     (if cache_get w (get_key e f) \<noteq> Some GENERATING \<and> cache_get w (get_key e f) \<noteq> Some EXISTS
      then w\<lparr>queue := queue w @ [\<lparr>task_backend = b, task_file = f, task_force = force\<rparr>]\<rparr>
      else w, None)"
  by (simp add: Async_generate_def get_state_noprobe)

subsection \<open>Async.generate\<close>

text \<open>
  C6. For an environment in which an \<^verbatim>\<open>Async\<close> backend can be constructed,
  \<^verbatim>\<open>Async.generate\<close> reads the state with \<^verbatim>\<open>check_if_unknown=False\<close>:
  the read is the cached value, runs no probe and writes nothing. It raises nothing
  and appends exactly one task carrying (backend, file, force) to the queue when that
  state is neither \<^verbatim>\<open>GENERATING\<close> nor \<^verbatim>\<open>EXISTS\<close>, and leaves the world
  unchanged otherwise; so with \<^verbatim>\<open>EXISTS\<close> cached no task is queued. Running
  the task is \<^verbatim>\<open>generate_now\<close> with the same force flag, guard included.
\<close>

theorem Async_generate_enqueues:
  assumes "Async_init e = Inr a"
  shows "get_state e b f False w = (cache_get w (get_key e f), w)
    \<and> snd (Async_generate e b f force w) = None
    \<and> fst (Async_generate e b f force w) =
        (if cache_get w (get_key e f) \<noteq> Some GENERATING
            \<and> cache_get w (get_key e f) \<noteq> Some EXISTS
         then w\<lparr>queue := queue w @ [\<lparr>task_backend = b, task_file = f, task_force = force\<rparr>]\<rparr>
         else w)
    \<and> probes (fst (Async_generate e b f force w)) = probes w
    \<and> (cache_get w (get_key e f) = Some EXISTS \<longrightarrow>
          queue (fst (Async_generate e b f force w)) = queue w)
    \<and> run_task e \<lparr>task_backend = b, task_file = f, task_force = force\<rparr> w' =
          generate_now e b f force w'"
proof -
  have c: "celery_installed e"
    using assms by (rule Async_init_installed)
  show ?thesis
    by (simp add: Async_generate_installed [OF c] get_state_noprobe run_task_def
        generate_file_task_def)
qed

theorem Async_generate_enqueues_witness:
  "Async_init ex_env = Inr Simple_init
   \<and> queue (fst (Async_generate ex_env Simple_init ex_file True ex_world)) =
       [\<lparr>task_backend = Simple_init, task_file = ex_file, task_force = True\<rparr>]
   \<and> queue (fst (Async_generate ex_env Simple_init ex_file True
       (ex_world\<lparr>cache := [''ik:a.jpg-state'' \<mapsto> \<lparr>val = EXISTS, timeout = None\<rparr>]\<rparr>))) = []"
proof -
  have h: "Async_init ex_env = Inr Simple_init"
    by (simp add: Async_init_def ex_env_def Simple_init_def)
  have k1: "cache_get ex_world (get_key ex_env ex_file) = None"
    by (rule ex_world_state)
  have k2: "cache_get (ex_world\<lparr>cache := [''ik:a.jpg-state'' \<mapsto> \<lparr>val = EXISTS, timeout = None\<rparr>]\<rparr>)
      (get_key ex_env ex_file) = Some EXISTS"
    by (simp add: ex_key cache_get_def)
  have q: "queue ex_world = []"
    by (simp add: ex_world_def)
  show ?thesis
    using h Async_generate_enqueues [OF h, of Simple_init ex_file ex_world True]
      Async_generate_enqueues [OF h, of Simple_init ex_file
        "ex_world\<lparr>cache := [''ik:a.jpg-state'' \<mapsto> \<lparr>val = EXISTS, timeout = None\<rparr>]\<rparr>" True]
    by (simp add: k1 k2 q)
qed

subsection \<open>Pickling\<close>

text \<open>
  C9. For a live instance dictionary, the dictionary returned by
  \<^verbatim>\<open>__getstate__\<close> has no \<^verbatim>\<open>_cache\<close> entry and agrees with the instance
  dictionary on every other key. It is a new object: the instance dictionary, and every
  other object of the heap, is as it was.
\<close>

theorem getstate_omits_cache:
  assumes "self < length h"
  shows "(snd (getstate self h) ! fst (getstate self h)) ''_cache'' = None
    \<and> (\<forall>k. k \<noteq> ''_cache'' \<longrightarrow>
          (snd (getstate self h) ! fst (getstate self h)) k = (h ! self) k)
    \<and> fst (getstate self h) \<noteq> self
    \<and> snd (getstate self h) ! self = h ! self
    \<and> (\<forall>a < length h. snd (getstate self h) ! a = h ! a)"
  using assms
  by (simp add: getstate_def copy_def pop_def nth_append)

theorem getstate_omits_cache_witness:
  "(0::nat) < length ex_heap
   \<and> (ex_heap ! 0) ''_cache'' = Some 7
   \<and> (snd (getstate 0 ex_heap) ! fst (getstate 0 ex_heap)) ''_cache'' = None
   \<and> (snd (getstate 0 ex_heap) ! fst (getstate 0 ex_heap)) ''existence_check_timeout'' = Some 30
   \<and> (snd (getstate 0 ex_heap) ! 0) ''_cache'' = Some 7"
proof -
  have h: "(0::nat) < length ex_heap"
    by (simp add: ex_heap_def)
  have v: "(ex_heap ! 0) ''_cache'' = Some 7" "(ex_heap ! 0) ''existence_check_timeout'' = Some 30"
    by (simp_all add: ex_heap_def)
  have n: "''existence_check_timeout'' \<noteq> ''_cache''"
    by simp
  from getstate_omits_cache [OF h] n v show ?thesis
    using h by simp
qed

subsection \<open>Writes keep the cache within the three states\<close>

lemma CacheFileState_members:
  "EXISTS \<in> CacheFileState" "GENERATING \<in> CacheFileState" "DOES_NOT_EXIST \<in> CacheFileState"
  by (simp_all add: CacheFileState_def)

lemma valid_cache_set_state:
  "valid_cache w \<Longrightarrow> s \<in> CacheFileState \<Longrightarrow> valid_cache (set_state e b f s w)"
  by (simp add: valid_cache_def cache_get_set_state)

lemma valid_cache_probes:
  "valid_cache (w\<lparr>probes := p\<rparr>) = valid_cache w"
  by (simp add: valid_cache_def cache_get_def)

lemma valid_cache_file_generate:
  "valid_cache (fst (file_generate f w)) = valid_cache w"
  by (simp add: valid_cache_def cache_get_file_generate)

lemma valid_cache_get_state:
  assumes "valid_cache w"
  shows "valid_cache (snd (get_state e b f c w))"
proof (cases "cache_get w (get_key e f) = None \<and> c")
  case True
  then have "snd (get_state e b f c w) =
      set_state e b f (if staged f \<or> name f \<in> storage w then EXISTS else DOES_NOT_EXIST)
        (w\<lparr>probes := probes w @ [name f]\<rparr>)"
    by (simp add: get_state_def Let_def Simple_exists_def)
  then show ?thesis
    using assms by (simp add: valid_cache_set_state valid_cache_probes CacheFileState_members)
next
  case False
  then have "snd (get_state e b f c w) = w"
    by (auto simp: get_state_def Let_def)
  then show ?thesis
    using assms by simp
qed


lemma valid_cache_generate_now_forced:
  assumes "valid_cache w"
  shows "valid_cache (fst (generate_now e b f True w))"
proof -
  let ?w2 = "fst (file_generate f (set_state e b f GENERATING w))"
  have 2: "valid_cache ?w2"
    using assms
    by (simp add: valid_cache_file_generate valid_cache_set_state CacheFileState_members)
  show ?thesis
  proof (cases "snd (render f (storage w))")
    case None
    then have "generate_now e b f True w = (set_state e b f EXISTS ?w2, None)"
      by (rule generate_now_forced_ok)
    then show ?thesis
      using 2 by (simp add: valid_cache_set_state CacheFileState_members)
  next
    case (Some x)
    then have "generate_now e b f True w = (?w2, Some x)"
      by (rule generate_now_forced_raise)
    then show ?thesis
      using 2 by simp
  qed
qed

lemma valid_cache_generate_now:
  assumes "valid_cache w"
  shows "valid_cache (fst (generate_now e b f force w))"
proof (cases force)
  case True
  then show ?thesis
    using assms by (simp add: valid_cache_generate_now_forced)
next
  case False
  let ?w0 = "snd (get_state e b f True w)"
  have v: "valid_cache ?w0"
    using assms by (rule valid_cache_get_state)
  show ?thesis
  proof (cases "fst (get_state e b f True w) = Some GENERATING
      \<or> fst (get_state e b f True w) = Some EXISTS")
    case True
    then have "generate_now e b f False w = (?w0, None)"
      by (rule generate_now_skip)
    then show ?thesis
      using v False by simp
  next
    case nogo: False
    then have "generate_now e b f False w = generate_now e b f True ?w0"
      by (simp add: generate_now_go)
    then show ?thesis
      using v False by (simp add: valid_cache_generate_now_forced)
  qed
qed

subsection \<open>The tri-state invariant\<close>

text \<open>
  C10. When every value the cache holds is one of the three states, \<^verbatim>\<open>get_state\<close>
  with probing returns one of \<^verbatim>\<open>EXISTS\<close>, \<^verbatim>\<open>GENERATING\<close>,
  \<^verbatim>\<open>DOES_NOT_EXIST\<close> and never \<^verbatim>\<open>None\<close>; and \<^verbatim>\<open>get_state\<close> and
  \<^verbatim>\<open>generate_now\<close> write only such values, so the cache stays that way.
\<close>

theorem get_state_tri_state:
  assumes "valid_cache w"
  shows "fst (get_state e b f True w) \<in> {Some EXISTS, Some GENERATING, Some DOES_NOT_EXIST}
    \<and> fst (get_state e b f True w) \<noteq> None
    \<and> valid_cache (snd (get_state e b f c w))
    \<and> valid_cache (fst (generate_now e b f force w))"
proof -
  have 1: "fst (get_state e b f True w) \<in> {Some EXISTS, Some GENERATING, Some DOES_NOT_EXIST}"
  proof (cases "cache_get w (get_key e f)")
    case None
    then show ?thesis
      by (simp add: get_state_miss_probe Simple_exists_def)
  next
    case (Some s)
    then have "s \<in> CacheFileState"
      using assms by (simp add: valid_cache_def)
    then have "s = EXISTS \<or> s = GENERATING \<or> s = DOES_NOT_EXIST"
      by (simp add: CacheFileState_def)
    then show ?thesis
      using Some by (auto simp: get_state_hit)
  qed
  then have 2: "fst (get_state e b f True w) \<noteq> None"
    by auto
  show ?thesis
    using 1 2 valid_cache_get_state [OF assms] valid_cache_generate_now [OF assms]
    by blast
qed

theorem get_state_tri_state_witness:
  "valid_cache ex_generating
   \<and> fst (get_state ex_env Simple_init ex_file True ex_generating) = Some GENERATING
   \<and> valid_cache (fst (generate_now ex_env Simple_init ex_file True ex_generating))"
proof -
  have v: "valid_cache ex_generating"
    by (simp add: valid_cache_def ex_generating_def ex_world_def cache_get_def
        CacheFileState_def)
  have g: "fst (get_state ex_env Simple_init ex_file True ex_generating) = Some GENERATING"
    by (simp add: get_state_hit ex_generating_state)
  from get_state_tri_state [OF v, of ex_env Simple_init ex_file True True] v g
  show ?thesis by blast
qed

end
